theory Spec2Isabelle
  imports Main "HOL-Library.Sublist"
begin

section \<open>Values and errors\<close>

text \<open>
  The module \<open>exec.py\<close> works on three kinds of Python data: parsed JSON (the status
  field of a pueue log entry), option values of a command tuple, and plain strings.
  A dict is an association list in insertion order, the order \<open>iter\<close> and \<open>items\<close>
  follow; its keys are strings (JSON object keys, flag names).
\<close>

datatype json =
    JNull
  | JBool bool
  | JNum int
  | JStr string
  | JArr "json list"
  | JObj "(string \<times> json) list"

text \<open>
  An option value of a command tuple (\<open>Dict[str, Any]\<close>). \<open>POther s\<close> stands for any
  object that is neither \<open>None\<close>, a bool, an int nor a str; \<open>s\<close> is what \<open>str\<close>
  returns for it.
\<close>

datatype pyval =
    PNone
  | PBool bool
  | PInt int
  | PStr string
  | POther string

datatype vmsg = TaskMustBeOneOf | InvalidLiteralForInt | ExceedsDigitLimit

datatype error =
    TypeError
  | AssertionError
  | ValueError vmsg
  | RuntimeError
  | StopIteration
  | KeyError
  | UnicodeDecodeError
  | TransportError

section \<open>Status normalization\<close>

text \<open>\<open>next(iter(d.keys()))\<close>: the first key, \<open>StopIteration\<close> on an empty dict.\<close>

fun first_key :: "(string \<times> json) list \<Rightarrow> error + json" where
  "first_key [] = Inl StopIteration"
| "first_key ((k, v) # kvs) = Inr (JStr k)"

text \<open>
  \<open>simplify_pueue_status\<close>. The result is a \<open>json\<close> value, since the \<open>else\<close> of the
  \<open>Done\<close> branch returns \<open>status["Done"]\<close> whatever it is.
\<close>

fun simplify_pueue_status :: "json \<Rightarrow> error + json" where
  "simplify_pueue_status (JStr s) = Inr (JStr s)"
| "simplify_pueue_status (JObj status) =
     (case map_of status ''Done'' of
        Some (JObj d) \<Rightarrow> first_key d
      | Some other \<Rightarrow> Inr other
      | None \<Rightarrow> first_key status)"
| "simplify_pueue_status other = Inl TypeError"

text \<open>A flat string label.\<close>

fun is_label :: "error + json \<Rightarrow> bool" where
  "is_label (Inr (JStr s)) = True"
| "is_label other = False"

section \<open>Strings\<close>

definition quote :: char where
  "quote = CHR 0x27"

definition backslash :: char where
  "backslash = CHR 0x5C"

text \<open>\<open>s.replace(old, new)\<close> for a one-character \<open>old\<close>.\<close>

definition replace_char :: "char \<Rightarrow> string \<Rightarrow> string \<Rightarrow> string" where
  "replace_char old new s = concat (map (\<lambda>c. if c = old then new else [c]) s)"

text \<open>\<open>sep.join(xs)\<close>.\<close>

fun join :: "string \<Rightarrow> string list \<Rightarrow> string" where
  "join sep [] = []"
| "join sep [x] = x"
| "join sep (x # y # ys) = x @ sep @ join sep (y # ys)"

text \<open>\<open>sub in s\<close> on strings: \<open>sub\<close> occurs in \<open>s\<close> as a contiguous run.\<close>

fun py_in :: "string \<Rightarrow> string \<Rightarrow> bool" where
  "py_in sub [] = (sub = [])"
| "py_in sub (c # s) = (prefix sub (c # s) \<or> py_in sub s)"

text \<open>
  \<open>string.digits\<close>, and \<open>str\<close> of an int: decimal digits (\<open>digit_char\<close> is only
  applied below 10), a minus sign for a negative number. The interpreter's limit on
  the digits of an int, which \<open>py_int\<close> below has, also holds for \<open>str\<close> of an int; it
  is not modelled here: ints given as option values and task ids are taken to be
  within it, as every id is that \<open>json.loads\<close> has parsed under the same limit.
\<close>

definition string_digits :: string where
  "string_digits = ''0123456789''"

definition digit_char :: "nat \<Rightarrow> char" where
  "digit_char d = string_digits ! d"

fun str_nat :: "nat \<Rightarrow> string" where
  "str_nat n = (if n < 10 then [digit_char n] else str_nat (n div 10) @ [digit_char (n mod 10)])"

declare str_nat.simps [simp del]

definition str_int :: "int \<Rightarrow> string" where
  "str_int i = (if i < 0 then CHR ''-'' # str_nat (nat (- i)) else str_nat (nat i))"

fun py_str :: "pyval \<Rightarrow> string" where
  "py_str PNone = ''None''"
| "py_str (PBool b) = (if b then ''True'' else ''False'')"
| "py_str (PInt i) = str_int i"
| "py_str (PStr s) = s"
| "py_str (POther s) = s"

text \<open>
  \<open>int\<close> of a string of decimal digits (the only strings \<open>queue\<close> passes to it):
  \<open>ValueError\<close> on the empty string, and \<open>ValueError\<close> on a string with more than
  \<open>lim\<close> digits. \<open>lim\<close> is the interpreter's setting \<open>int_max_str_digits\<close>: 4300
  unless configured otherwise, 0 for no limit (as in interpreters without the setting);
  it is only looked at for strings of more than 640 digits.
\<close>

definition digit_val :: "char \<Rightarrow> int" where
  "digit_val c = int (of_char c) - 48"

definition default_max_str_digits :: nat where
  "default_max_str_digits = 4300"

definition exceeds_limit :: "nat \<Rightarrow> nat \<Rightarrow> bool" where
  "exceeds_limit lim n = (640 < n \<and> 0 < lim \<and> lim < n)"

definition py_int :: "nat \<Rightarrow> string \<Rightarrow> error + int" where
  "py_int lim ds =
     (if ds = [] then Inl (ValueError InvalidLiteralForInt)
      else if exceeds_limit lim (length ds) then Inl (ValueError ExceedsDigitLimit)
      else Inr (foldl (\<lambda>a c. 10 * a + digit_val c) 0 ds))"

text \<open>\<open>s.lower()\<close> on ASCII letters.\<close>

definition lower_char :: "char \<Rightarrow> char" where
  "lower_char c = (let n = (of_char c :: nat) in if 65 \<le> n \<and> n \<le> 90 then char_of (n + 32) else c)"

definition lower :: "string \<Rightarrow> string" where
  "lower s = map lower_char s"

section \<open>Command resolution\<close>

definition shell_escape :: "pyval \<Rightarrow> string" where
  "shell_escape v = [quote] @ replace_char quote [backslash, quote, quote] (py_str v) @ [quote]"

text \<open>
  \<open>CMDType\<close>: a string, a list of strings, or a tuple of a base and an options dict.
  \<open>CTupleN\<close> is a tuple whose length is not 2, \<open>CNoCmd\<close> any other object. It
  carries the error, if any, that \<open>execute\<close> meets when it forms its log line for the
  object, before it connects: \<open>len(cmd)\<close> and, when that exceeds 4000, \<open>cmd[:500]\<close>.
\<close>

datatype cmd =
    CStr string
  | CList "string list"
  | CTuple string "(string \<times> pyval) list"
  | CTupleN
  | CNoCmd "error option"

text \<open>The body of the loop over \<open>cmd[1].items()\<close>.\<close>

fun append_option :: "string list \<Rightarrow> string \<times> pyval \<Rightarrow> string list" where
  "append_option cmdStr (k, PBool v) = (if v then cmdStr @ [''--'' @ k] else cmdStr)"
| "append_option cmdStr (k, PNone) = cmdStr"
| "append_option cmdStr (k, v) = cmdStr @ [''--'' @ k @ ''='' @ shell_escape v]"

fun resolve_cmd :: "cmd \<Rightarrow> error + string" where
  "resolve_cmd (CStr s) = Inr s"
| "resolve_cmd (CList xs) = Inr (join '' '' xs)"
| "resolve_cmd (CTuple base opts) = Inr (join '' '' (foldl append_option [base] opts))"
| "resolve_cmd CTupleN = Inl AssertionError"
| "resolve_cmd (CNoCmd log_error) = Inl TypeError"

section \<open>Transport\<close>

text \<open>
  The settings \<open>ENV\<close> read by \<open>execute\<close>, and the remote side behind paramiko: whether
  \<open>SSH.connect\<close> succeeds for a host and user, and what running a command and reading
  and decoding its standard output gives, the text or an error (\<open>UnicodeDecodeError\<close>
  for output that is not UTF-8). What \<open>execute\<close> does to the connection is recorded as
  a list of events.
\<close>

record env =
  worker_host :: string
  worker_user :: string

record transport =
  can_connect :: "string \<Rightarrow> string \<Rightarrow> bool"
  exec_command :: "string \<Rightarrow> error + string"

datatype event = Connect string string | ExecCommand string | Close

text \<open>The defaults of \<open>ENV\<close> for the worker.\<close>

definition default_env :: env where
  "default_env = \<lparr> worker_host = ''192.168.0.94'', worker_user = ''task_runner'' \<rparr>"

text \<open>A remote side that accepts every connection and answers every command with \<open>ack\<close>.\<close>

definition stub_transport :: "string \<Rightarrow> transport" where
  "stub_transport ack = \<lparr> can_connect = (\<lambda>h u. True), exec_command = (\<lambda>c. Inr ack) \<rparr>"

text \<open>\<open>x or default\<close> on an optional string: \<open>None\<close> and the empty string are falsy.\<close>

fun py_or :: "string option \<Rightarrow> string \<Rightarrow> string" where
  "py_or None d = d"
| "py_or (Some s) d = (if s = [] then d else s)"

text \<open>
  The remote branch of \<open>execute\<close>, the one \<open>queue\<close> takes: the log line, then
  connect, resolve, run, read and decode, close. A failing \<open>SSH.connect\<close> is
  \<open>TransportError\<close>; an error while running or decoding leaves the connection open.
\<close>

fun log_error :: "cmd \<Rightarrow> error option" where
  "log_error (CNoCmd err) = err"
| "log_error c = None"

definition execute_remote ::
  "transport \<Rightarrow> env \<Rightarrow> cmd \<Rightarrow> string option \<Rightarrow> string option \<Rightarrow> event list
     \<Rightarrow> (error + string) \<times> event list" where
  "execute_remote tr e c user host evs =
     (let host' = py_or host (worker_host e);
          user' = py_or user (worker_user e);
          evs1 = evs @ [Connect host' user']
      in case log_error c of
           Some err \<Rightarrow> (Inl err, evs)
         | None \<Rightarrow>
             (if \<not> can_connect tr host' user' then (Inl TransportError, evs1)
              else (case resolve_cmd c of
                      Inl err \<Rightarrow> (Inl err, evs1)
                    | Inr s \<Rightarrow>
                        (case exec_command tr s of
                           Inl err \<Rightarrow> (Inl err, evs1 @ [ExecCommand s])
                         | Inr out \<Rightarrow> (Inr out, evs1 @ [ExecCommand s, Close])))))"

section \<open>Local execution\<close>

text \<open>
  The subprocess writes bytes; the text \<open>execute\<close> accumulates is a Python \<open>str\<close>, here
  the list of its code points.
\<close>

type_synonym bytes = "nat list"

type_synonym pytext = "nat list"

text \<open>
  \<open>line.decode("utf8")\<close>: strict UTF-8. \<open>None\<close> is \<open>UnicodeDecodeError\<close>: a byte
  that cannot start a character, a missing or wrong continuation byte, an overlong
  form, a surrogate, or a code point above 10FFFF.
\<close>

definition cont :: "nat \<Rightarrow> bool" where
  "cont b = (0x80 \<le> b \<and> b \<le> 0xBF)"

fun decode_utf8 :: "bytes \<Rightarrow> pytext option" where
  "decode_utf8 [] = Some []"
| "decode_utf8 (b0 # bs) =
     (if b0 < 0x80 then map_option ((#) b0) (decode_utf8 bs)
      else if 0xC2 \<le> b0 \<and> b0 \<le> 0xDF then
        (case bs of
           b1 # r \<Rightarrow>
             if cont b1
             then map_option ((#) ((b0 - 0xC0) * 64 + (b1 - 0x80))) (decode_utf8 r)
             else None
         | _ \<Rightarrow> None)
      else if 0xE0 \<le> b0 \<and> b0 \<le> 0xEF then
        (case bs of
           b1 # b2 # r \<Rightarrow>
             if (if b0 = 0xE0 then 0xA0 else 0x80) \<le> b1 \<and>
                b1 \<le> (if b0 = 0xED then 0x9F else 0xBF) \<and> cont b2
             then map_option ((#) ((b0 - 0xE0) * 4096 + (b1 - 0x80) * 64 + (b2 - 0x80)))
                    (decode_utf8 r)
             else None
         | _ \<Rightarrow> None)
      else if 0xF0 \<le> b0 \<and> b0 \<le> 0xF4 then
        (case bs of
           b1 # b2 # b3 # r \<Rightarrow>
             if (if b0 = 0xF0 then 0x90 else 0x80) \<le> b1 \<and>
                b1 \<le> (if b0 = 0xF4 then 0x8F else 0xBF) \<and> cont b2 \<and> cont b3
             then map_option
                    ((#) ((b0 - 0xF0) * 262144 + (b1 - 0x80) * 4096 + (b2 - 0x80) * 64 + (b3 - 0x80)))
                    (decode_utf8 r)
             else None
         | _ \<Rightarrow> None)
      else None)"

text \<open>
  The \<open>progress\<close> argument: \<open>None\<close> is the default \<open>False\<close>; otherwise an object
  with its truth value, which \<open>if progress:\<close> tests, and with what calling it on a text
  does, returning (\<open>None\<close>) or raising.
\<close>

record sink =
  truthy :: bool
  raises :: "pytext \<Rightarrow> error option"

fun is_true :: "sink option \<Rightarrow> bool" where
  "is_true None = False"
| "is_true (Some s) = truthy s"

fun call_sink :: "sink option \<Rightarrow> pytext \<Rightarrow> error option" where
  "call_sink None x = Some TypeError"
| "call_sink (Some s) x = raises s x"

text \<open>
  The loop over the lines of \<open>process.stdout\<close>, on the text accumulated so far and the
  arguments the sink has been called with. It stops at the first line that does not
  decode and at the first call of the sink that raises.
\<close>

fun local_loop ::
  "bytes list \<Rightarrow> sink option \<Rightarrow> pytext \<times> pytext list \<Rightarrow> (error + pytext) \<times> pytext list" where
  "local_loop [] progress (stdout, calls) = (Inr stdout, calls)"
| "local_loop (line # rest) progress (stdout, calls) =
     (case decode_utf8 line of
        None \<Rightarrow> (Inl UnicodeDecodeError, calls)
      | Some s \<Rightarrow>
          if is_true progress then
            (case call_sink progress (stdout @ s) of
               Some err \<Rightarrow> (Inl err, calls @ [stdout @ s])
             | None \<Rightarrow> local_loop rest progress (stdout @ s, calls @ [stdout @ s]))
          else local_loop rest progress (stdout @ s, calls))"

text \<open>
  The local branch of \<open>execute\<close>. \<open>spawn\<close> is what \<open>subprocess.Popen\<close> gives for the
  command: an error, or the lines the process writes until it exits.
\<close>

definition execute_local ::
  "error + bytes list \<Rightarrow> sink option \<Rightarrow> pytext list
     \<Rightarrow> (error + pytext) \<times> pytext list" where
  "execute_local spawn progress calls =
     (case spawn of
        Inl err \<Rightarrow> (Inl err, calls)
      | Inr lines \<Rightarrow> local_loop lines progress ([], calls))"

text \<open>A sink that is an ordinary function: truthy, and it returns.\<close>

definition plain_sink :: sink where
  "plain_sink = \<lparr> truthy = True, raises = (\<lambda>x. None) \<rparr>"

section \<open>Job submission\<close>

definition available_tasks :: "string set" where
  "available_tasks = {''train'', ''inference'', ''create''}"

text \<open>The last four lines of \<open>queue\<close>: the task id read from the acknowledgement.\<close>

definition task_id_of :: "nat \<Rightarrow> string \<Rightarrow> error + int" where
  "task_id_of lim stdout =
     (if py_in ''New task added'' stdout
      then py_int lim (filter (\<lambda>x. x \<in> set string_digits) stdout)
      else Inl RuntimeError)"

text \<open>\<open>queue\<close>, under the interpreter's digit limit \<open>lim\<close>.\<close>

definition queue ::
  "nat \<Rightarrow> transport \<Rightarrow> env \<Rightarrow> cmd \<Rightarrow> string \<Rightarrow> string option \<Rightarrow> string option \<Rightarrow> event list
     \<Rightarrow> (error + int) \<times> event list" where
  "queue lim tr e c task user host evs =
     (if task \<notin> available_tasks then (Inl (ValueError TaskMustBeOneOf), evs)
      else case resolve_cmd c of
             Inl err \<Rightarrow> (Inl err, evs)
           | Inr s \<Rightarrow>
               (case execute_remote tr e (CStr (''./pueue add -g '' @ task @ '' -- '' @ s)) user host evs of
                  (Inl err, evs') \<Rightarrow> (Inl err, evs')
                | (Inr stdout, evs') \<Rightarrow> (task_id_of lim stdout, evs')))"

section \<open>The live status callback\<close>

text \<open>
  The dict returned by \<open>exec.status\<close>, and the element tree \<open>__pueue_status\<close> adds to
  it under \<open>ui\<close>, kept as the texts it shows.
\<close>

record status_rec =
  id :: int
  command :: string
  group :: string
  status :: string
  started_at :: "string option"
  ended_at :: "string option"
  created_at :: "string option"
  log :: string

record ui =
  ui_status :: string
  ui_class :: string
  ui_created :: "string option"
  ui_started :: "string option"
  ui_ended :: "string option"
  ui_href :: string
  ui_command :: string
  ui_log :: string

definition render_ui :: "string \<Rightarrow> status_rec \<Rightarrow> ui" where
  "render_ui task_id st =
     \<lparr> ui_status = status st,
       ui_class = ''tag '' @ lower (status st),
       ui_created = created_at st,
       ui_started = started_at st,
       ui_ended = ended_at st,
       ui_href = ''http://192.168.0.93:8007/log/'' @ task_id,
       ui_command = command st,
       ui_log = log st \<rparr>"

text \<open>
  The callback's world: how many status queries were made, what the progress sink
  received, and the sleeps. \<open>src full n\<close> is the outcome of query number \<open>n\<close>.
\<close>

record poll_world =
  queries :: nat
  progress_calls :: "(string \<times> ui) list"
  sleeps :: "nat list"

type_synonym status_source = "bool \<Rightarrow> nat \<Rightarrow> error + status_rec"

definition pueue_status ::
  "status_source \<Rightarrow> string \<Rightarrow> bool \<Rightarrow> poll_world \<Rightarrow> (error + status_rec \<times> ui) \<times> poll_world" where
  "pueue_status src task_id full w =
     (case src full (queries w) of
        Inl err \<Rightarrow> (Inl err, w\<lparr>queries := Suc (queries w)\<rparr>)
      | Inr st \<Rightarrow> (Inr (st, render_ui task_id st), w\<lparr>queries := Suc (queries w)\<rparr>))"

definition terminal :: "string set" where
  "terminal = {''Finished'', ''Failed'', ''Killed'', ''Success''}"

definition progress_title :: "status_rec \<Rightarrow> string" where
  "progress_title st = ''Task '' @ str_int (id st) @ '' @ '' @ group st @ ''...''"

definition final_title :: "status_rec \<Rightarrow> string" where
  "final_title st = ''Task '' @ str_int (id st) @ '' @'' @ group st"

definition set_progress :: "string \<times> ui \<Rightarrow> poll_world \<Rightarrow> poll_world" where
  "set_progress x w = w\<lparr>progress_calls := progress_calls w @ [x]\<rparr>"

definition sleep :: "nat \<Rightarrow> poll_world \<Rightarrow> poll_world" where
  "sleep n w = w\<lparr>sleeps := sleeps w @ [n]\<rparr>"

text \<open>The \<open>while True\<close> loop; it may never return, which is the value \<open>None\<close>.\<close>

partial_function (option) live_loop ::
  "status_source \<Rightarrow> string \<Rightarrow> bool \<Rightarrow> poll_world \<Rightarrow> ((error + status_rec \<times> ui) \<times> poll_world) option" where
  "live_loop src task_id full w =
     (case pueue_status src task_id full w of
        (Inl err, w1) \<Rightarrow> Some (Inl err, w1)
      | (Inr p, w1) \<Rightarrow>
          if status (fst p) \<in> terminal then Some (Inr p, w1)
          else live_loop src task_id full
                 (sleep 5 (set_progress (progress_title (fst p), snd p) w1)))"

datatype cb_result = no_update | Update string ui string

text \<open>
  \<open>__pueue_status_callback\<close>. Its three inputs may each be \<open>None\<close>.
\<close>

definition pueue_status_callback ::
  "status_source \<Rightarrow> string option \<Rightarrow> bool option \<Rightarrow> bool option \<Rightarrow> poll_world
     \<Rightarrow> ((error + cb_result) \<times> poll_world) option" where
  "pueue_status_callback src task_id is_live full w =
     (case (task_id, is_live, full) of
        (Some t, Some live, Some f) \<Rightarrow>
          if t = [] then Some (Inr no_update, w)
          else
            (case (if \<not> live then Some (pueue_status src t f w) else live_loop src t f w) of
               None \<Rightarrow> None
             | Some (Inl err, w1) \<Rightarrow> Some (Inl err, w1)
             | Some (Inr p, w1) \<Rightarrow> Some (Inr (Update (final_title (fst p)) (snd p) []), w1))
      | _ \<Rightarrow> Some (Inr no_update, w))"

text \<open>
  A status source that answers the queries with the given statuses in order and has
  nothing more to give after the last.
\<close>

definition stub_source :: "status_rec list \<Rightarrow> status_source" where
  "stub_source sts = (\<lambda>full n. if n < length sts then Inr (sts ! n) else Inl StopIteration)"

definition task_with_status :: "string \<Rightarrow> status_rec" where
  "task_with_status lbl =
     \<lparr> id = 7, command = ''sleep 60'', group = ''train'', status = lbl,
       started_at = None, ended_at = None, created_at = None, log = [] \<rparr>"

definition fresh_world :: poll_world where
  "fresh_world = \<lparr> queries = 0, progress_calls = [], sleeps = [] \<rparr>"

section \<open>Reference definitions\<close>

text \<open>
  The detail a \<open>Done\<close> wrapper is expected to carry: a string, or a mapping with at
  least one entry.
\<close>

fun detail_ok :: "json \<Rightarrow> bool" where
  "detail_ok (JStr s) = True"
| "detail_ok (JObj (kv # d)) = True"
| "detail_ok other = False"


text \<open>
  A reader of one shell word under the POSIX quoting rules. Between single quotes every
  character stands for itself up to the next single quote; outside quotes a backslash
  makes the next character literal. The flag is \<open>True\<close> inside single quotes. The
  reader gives \<open>None\<close> for an unterminated quote or backslash and for text that is not
  one plain word (a blank, a double quote or an operator character outside quotes).
\<close>

definition sh_special :: "char set" where
  "sh_special = set '' \"$`;&|<>()*?[#~=%'' \<union> {CHR 0x09, CHR 0x0A}"

fun sh_read :: "bool \<Rightarrow> string \<Rightarrow> string option" where
  "sh_read False [] = Some []"
| "sh_read True [] = None"
| "sh_read True (c # cs) =
     (if c = quote then sh_read False cs else map_option ((#) c) (sh_read True cs))"
| "sh_read False (c # cs) =
     (if c = quote then sh_read True cs
      else if c = backslash then
        (case cs of [] \<Rightarrow> None | d # ds \<Rightarrow> map_option ((#) d) (sh_read False ds))
      else if c \<in> sh_special then None
      else map_option ((#) c) (sh_read False cs))"

section \<open>Status normalization: properties\<close>

lemma first_key_label: "kvs \<noteq> [] \<Longrightarrow> is_label (first_key kvs)"
  by (cases kvs) auto

text \<open>
  C1, as the code has it. A plain string is returned unchanged; a one-entry mapping
  under \<open>Done\<close> whose detail is a string yields that string, and whose detail is a
  mapping with an entry yields that mapping's first key; a one-entry mapping under any
  other key yields that key. In each of these cases the result is a flat string label.
  \<open>{"Done": "Success"}\<close> gives \<open>Success\<close>, \<open>{"Done": {"Failed": 127}}\<close> gives
  \<open>Failed\<close>, and \<open>Running\<close> gives \<open>Running\<close>.
\<close>

theorem simplify_pueue_status_label:
  "simplify_pueue_status (JStr s) = Inr (JStr s) \<and>
   simplify_pueue_status (JObj [(''Done'', JStr s)]) = Inr (JStr s) \<and>
   simplify_pueue_status (JObj [(''Done'', JObj ((k', v') # r))]) = Inr (JStr k') \<and>
   (k \<noteq> ''Done'' \<longrightarrow> simplify_pueue_status (JObj [(k, v)]) = Inr (JStr k)) \<and>
   (detail_ok d \<longrightarrow> is_label (simplify_pueue_status (JObj [(''Done'', d)]))) \<and>
   simplify_pueue_status (JObj [(''Done'', JStr ''Success'')]) = Inr (JStr ''Success'') \<and>
   simplify_pueue_status (JObj [(''Done'', JObj [(''Failed'', JNum 127)])]) = Inr (JStr ''Failed'') \<and>
   simplify_pueue_status (JStr ''Running'') = Inr (JStr ''Running'')"
proof -
  have "is_label (simplify_pueue_status (JObj [(''Done'', d)]))" if "detail_ok d"
    using that by (cases d rule: detail_ok.cases) (simp_all add: first_key_label)
  then show ?thesis by simp
qed

theorem simplify_pueue_status_label_witness:
  "''Stashed'' \<noteq> ''Done'' \<and>
   simplify_pueue_status (JObj [(''Stashed'', JObj [(''enqueue_at'', JNull)])]) = Inr (JStr ''Stashed'') \<and>
   detail_ok (JStr ''Killed'') \<and>
   is_label (simplify_pueue_status (JObj [(''Done'', JStr ''Killed'')]))"
  using simplify_pueue_status_label
    [where k = "''Stashed''" and v = "JObj [(''enqueue_at'', JNull)]" and d = "JStr ''Killed''"]
  by simp

text \<open>
  C1 as stated fails: the one-entry mapping \<open>{"Done": 127}\<close> is returned as the number
  127, which is not a string label.
\<close>

theorem simplify_done_number_not_label:
  "simplify_pueue_status (JObj [(''Done'', JNum 127)]) = Inr (JNum 127) \<and>
   \<not> is_label (simplify_pueue_status (JObj [(''Done'', JNum 127)]))"
  by simp

text \<open>
  C10, as the code has it. Every string, and every non-empty mapping whose \<open>Done\<close>
  entry, when it has one, is a string or a mapping with an entry, is normalized to a
  string label; the empty mapping raises \<open>StopIteration\<close>.
\<close>

theorem simplify_pueue_status_total_on:
  "is_label (simplify_pueue_status (JStr s)) \<and>
   (kvs \<noteq> [] \<and> (\<forall>d. map_of kvs ''Done'' = Some d \<longrightarrow> detail_ok d)
      \<longrightarrow> is_label (simplify_pueue_status (JObj kvs))) \<and>
   simplify_pueue_status (JObj []) = Inl StopIteration"
proof -
  have "is_label (simplify_pueue_status (JObj kvs))"
    if ne: "kvs \<noteq> []" and ok: "\<forall>d. map_of kvs ''Done'' = Some d \<longrightarrow> detail_ok d"
  proof (cases "map_of kvs ''Done''")
    case None
    then show ?thesis using ne by (simp add: first_key_label)
  next
    case (Some d)
    then have "detail_ok d" using ok by simp
    then show ?thesis using Some
      by (cases d rule: detail_ok.cases) (simp_all add: first_key_label)
  qed
  then show ?thesis by simp
qed

theorem simplify_pueue_status_total_on_witness:
  "[(''Paused'', JNull), (''Done'', JStr ''Killed'')] \<noteq> [] \<and>
   map_of [(''Paused'', JNull), (''Done'', JStr ''Killed'')] ''Done'' = Some (JStr ''Killed'') \<and>
   detail_ok (JStr ''Killed'') \<and>
   is_label (simplify_pueue_status (JObj [(''Paused'', JNull), (''Done'', JStr ''Killed'')]))"
  using simplify_pueue_status_total_on
    [where kvs = "[(''Paused'', JNull), (''Done'', JStr ''Killed'')]"]
  by simp

text \<open>
  C10 as stated fails: \<open>{"Done": {}}\<close> is a non-empty mapping, and normalizing it
  raises \<open>StopIteration\<close>.
\<close>

theorem simplify_done_empty_raises:
  "[(''Done'', JObj [])] \<noteq> [] \<and>
   simplify_pueue_status (JObj [(''Done'', JObj [])]) = Inl StopIteration"
  by simp

section \<open>Command resolution: properties\<close>



lemma sh_read_quoted:
  "sh_read True (replace_char quote [backslash, quote, quote] s @ [quote]) =
     Some (replace_char quote [backslash] s)"
proof (induction s)
  case Nil
  then show ?case by (simp add: replace_char_def)
next
  case (Cons c s)
  then show ?case by (simp add: replace_char_def quote_def backslash_def)
qed

lemma replace_char_absent: "old \<notin> set s \<Longrightarrow> replace_char old new s = s"
  by (induction s) (auto simp: replace_char_def)

text \<open>
  What a shell reads back from an escaped value: the value with each single quote
  turned into a backslash. A value without a single quote is read back unchanged.
\<close>

lemma sh_read_shell_escape:
  "sh_read False (shell_escape v) = Some (replace_char quote [backslash] (py_str v))"
  by (simp add: shell_escape_def sh_read_quoted)

lemma sh_read_shell_escape_plain:
  "quote \<notin> set (py_str v) \<Longrightarrow> sh_read False (shell_escape v) = Some (py_str v)"
  by (simp add: sh_read_shell_escape replace_char_absent)

lemma replace_char_present:
  "old \<in> set s \<Longrightarrow> new \<noteq> old \<Longrightarrow> replace_char old [new] s \<noteq> s"
proof -
  assume o: "old \<in> set s" and n: "new \<noteq> old"
  have "old \<notin> set (replace_char old [new] s)"
    using n by (induction s) (auto simp: replace_char_def)
  then show ?thesis using o by auto
qed

lemma sh_read_shell_escape_quoted:
  "quote \<in> set (py_str v) \<Longrightarrow> sh_read False (shell_escape v) \<noteq> Some (py_str v)"
  using replace_char_present[of quote "py_str v" backslash]
  by (simp add: sh_read_shell_escape quote_def backslash_def)

text \<open>
  C6 at the value \<open>it's\<close>: the escaped form is \<open>'it\''s'\<close>, which a shell reads as
  the quoted \<open>it\\<close> followed by the quoted \<open>s\<close>, that is \<open>it\s\<close>, not the value.
\<close>

theorem shell_escape_quote_not_recovered:
  "shell_escape (PStr [CHR ''i'', CHR ''t'', quote, CHR ''s'']) =
     [quote, CHR ''i'', CHR ''t'', backslash, quote, quote, CHR ''s'', quote] \<and>
   sh_read False (shell_escape (PStr [CHR ''i'', CHR ''t'', quote, CHR ''s''])) =
     Some [CHR ''i'', CHR ''t'', backslash, CHR ''s''] \<and>
   sh_read False (shell_escape (PStr [CHR ''i'', CHR ''t'', quote, CHR ''s''])) \<noteq>
     Some [CHR ''i'', CHR ''t'', quote, CHR ''s'']"
  by (simp add: shell_escape_def replace_char_def quote_def backslash_def)

section \<open>Job submission: properties\<close>

text \<open>
  C4. A group outside \<open>train\<close>, \<open>inference\<close>, \<open>create\<close> makes \<open>queue\<close> fail with its
  \<open>ValueError\<close> and leaves the record of transport events as it was: nothing was
  connected to and nothing was run.
\<close>

theorem queue_invalid_group:
  "task \<notin> available_tasks \<Longrightarrow>
     queue lim tr e c task user host evs = (Inl (ValueError TaskMustBeOneOf), evs)"
  by (simp add: queue_def)

theorem queue_invalid_group_witness:
  "''deploy'' \<notin> available_tasks \<and>
   queue default_max_str_digits (stub_transport ''New task added (id 0).'') default_env
     (CStr ''ls'') ''deploy'' None None [] =
     (Inl (ValueError TaskMustBeOneOf), [])"
  using queue_invalid_group
    [of "''deploy''" default_max_str_digits "stub_transport ''New task added (id 0).''"
        default_env "CStr ''ls''" None None "[]"]
  by (simp add: available_tasks_def)

section \<open>Local execution: properties\<close>

lemma local_loop_progress:
  assumes "map decode_utf8 lines = map Some texts" "truthy s" "\<forall>x. raises s x = None"
  shows "local_loop lines (Some s) (out, calls) =
     (Inr (out @ concat texts),
      calls @ map (\<lambda>i. out @ concat (take (Suc i) texts)) [0..<length texts])"
  using assms(1)
proof (induction lines arbitrary: out calls texts)
  case Nil
  then show ?case by simp
next
  case (Cons l lines)
  then obtain t ts where t: "texts = t # ts" "decode_utf8 l = Some t"
    "map decode_utf8 lines = map Some ts"
    by (cases texts) auto
  have "map (\<lambda>i. out @ concat (take (Suc i) (t # ts))) [0..<length (t # ts)]
      = (out @ t) # map (\<lambda>i. (out @ t) @ concat (take (Suc i) ts)) [0..<length ts]"
    by (simp add: upt_conv_Cons map_Suc_upt[symmetric] del: upt_Suc)
  then show ?case using Cons.IH[OF t(3)] t assms(2,3) by simp
qed

text \<open>
  A line that does not decode ends the execution with \<open>UnicodeDecodeError\<close>; the sink
  has been called for the lines before it and is not called for it.
\<close>

lemma local_loop_undecodable:
  assumes "map decode_utf8 pre = map Some texts" "truthy s" "\<forall>x. raises s x = None"
    and "decode_utf8 l = None"
  shows "local_loop (pre @ l # post) (Some s) (out, calls) =
     (Inl UnicodeDecodeError,
      calls @ map (\<lambda>i. out @ concat (take (Suc i) texts)) [0..<length texts])"
  using assms(1)
proof (induction pre arbitrary: out calls texts)
  case Nil
  then show ?case using assms(4) by simp
next
  case (Cons p pre)
  then obtain t ts where t: "texts = t # ts" "decode_utf8 p = Some t"
    "map decode_utf8 pre = map Some ts"
    by (cases texts) auto
  have "map (\<lambda>i. out @ concat (take (Suc i) (t # ts))) [0..<length (t # ts)]
      = (out @ t) # map (\<lambda>i. (out @ t) @ concat (take (Suc i) ts)) [0..<length ts]"
    by (simp add: upt_conv_Cons map_Suc_upt[symmetric] del: upt_Suc)
  then show ?case using Cons.IH[OF t(3)] t assms(2,3) by simp
qed

text \<open>A sink that is absent or falsy is never called.\<close>

lemma local_loop_silent:
  "\<not> is_true progress \<Longrightarrow> map decode_utf8 lines = map Some texts \<Longrightarrow>
     local_loop lines progress (out, calls) = (Inr (out @ concat texts), calls)"
proof (induction lines arbitrary: out texts)
  case Nil
  then show ?case by simp
next
  case (Cons l lines)
  then obtain t ts where t: "texts = t # ts" "decode_utf8 l = Some t"
    "map decode_utf8 lines = map Some ts"
    by (cases texts) auto
  then show ?case using Cons.IH[OF Cons.prems(1) t(3)] Cons.prems(1) by simp
qed

lemma prefix_concat_take: "i \<le> j \<Longrightarrow> prefix (concat (take i xs)) (concat (take j xs))"
proof -
  assume "i \<le> j"
  then have "take j xs = take i xs @ take (j - i) (drop i xs)"
    using take_add[of i "j - i" xs] by simp
  then show ?thesis by simp
qed

text \<open>
  C7, as the code has it. When the subprocess starts, every line it writes is valid
  UTF-8 and the progress sink is truthy and returns normally, the sink is called once
  per output line, call number \<open>i\<close> with the text accumulated up to and including line
  \<open>i\<close>; each call's argument is a prefix of every later one; the value returned is the
  concatenation of all decoded lines, which is the last argument the sink received when
  there was a line.
\<close>

theorem execute_local_progress:
  "map decode_utf8 lines = map Some texts \<and> truthy s \<and> (\<forall>x. raises s x = None) \<longrightarrow>
   fst (execute_local (Inr lines) (Some s) []) = Inr (concat texts) \<and>
   snd (execute_local (Inr lines) (Some s) []) =
     map (\<lambda>i. concat (take (Suc i) texts)) [0..<length lines] \<and>
   length (snd (execute_local (Inr lines) (Some s) [])) = length lines \<and>
   (\<forall>i j. i \<le> j \<and> j < length lines \<longrightarrow>
      prefix (snd (execute_local (Inr lines) (Some s) []) ! i)
             (snd (execute_local (Inr lines) (Some s) []) ! j)) \<and>
   (lines \<noteq> [] \<longrightarrow>
      Inr (last (snd (execute_local (Inr lines) (Some s) []))) =
      fst (execute_local (Inr lines) (Some s) []))"
proof (intro impI, elim conjE)
  assume d: "map decode_utf8 lines = map Some texts"
    and s: "truthy s" "\<forall>x. raises s x = None"
  have n: "length texts = length lines"
    using d by (metis length_map)
  have e: "execute_local (Inr lines) (Some s) [] =
      (Inr (concat texts), map (\<lambda>i. concat (take (Suc i) texts)) [0..<length lines])"
    using local_loop_progress[OF d s, of "[]" "[]"] n by (simp add: execute_local_def)
  have l: "last (map (\<lambda>i. concat (take (Suc i) texts)) [0..<length lines]) = concat texts"
    if "lines \<noteq> []"
  proof -
    from that obtain k where k: "length lines = Suc k" by (cases lines) auto
    then show ?thesis using n by (simp add: last_map)
  qed
  show "fst (execute_local (Inr lines) (Some s) []) = Inr (concat texts) \<and>
   snd (execute_local (Inr lines) (Some s) []) =
     map (\<lambda>i. concat (take (Suc i) texts)) [0..<length lines] \<and>
   length (snd (execute_local (Inr lines) (Some s) [])) = length lines \<and>
   (\<forall>i j. i \<le> j \<and> j < length lines \<longrightarrow>
      prefix (snd (execute_local (Inr lines) (Some s) []) ! i)
             (snd (execute_local (Inr lines) (Some s) []) ! j)) \<and>
   (lines \<noteq> [] \<longrightarrow>
      Inr (last (snd (execute_local (Inr lines) (Some s) []))) =
      fst (execute_local (Inr lines) (Some s) []))"
    unfolding e by (simp add: l prefix_concat_take)
qed

theorem execute_local_progress_witness:
  "map decode_utf8 [[0x61, 0x0A], [0xC3, 0xA9, 0x0A]] = map Some [[0x61, 0x0A], [0xE9, 0x0A]] \<and>
   truthy plain_sink \<and> raises plain_sink [0x61, 0x0A] = None \<and>
   execute_local (Inr [[0x61, 0x0A], [0xC3, 0xA9, 0x0A]]) (Some plain_sink) [] =
     (Inr [0x61, 0x0A, 0xE9, 0x0A], [[0x61, 0x0A], [0x61, 0x0A, 0xE9, 0x0A]]) \<and>
   prefix (snd (execute_local (Inr [[0x61, 0x0A], [0xC3, 0xA9, 0x0A]]) (Some plain_sink) []) ! 0)
          (snd (execute_local (Inr [[0x61, 0x0A], [0xC3, 0xA9, 0x0A]]) (Some plain_sink) []) ! 1)"
  using execute_local_progress
    [where lines = "[[0x61, 0x0A], [0xC3, 0xA9, 0x0A]]" and texts = "[[0x61, 0x0A], [0xE9, 0x0A]]"
       and s = plain_sink]
  by (simp add: plain_sink_def cont_def execute_local_def)

text \<open>
  C7 as stated fails: when the process writes the line \<open>FF 0A\<close>, which is not UTF-8,
  the execution ends in \<open>UnicodeDecodeError\<close>; the sink, an ordinary function, is not
  called for that line and no output is returned.
\<close>

theorem execute_local_undecodable_line:
  "execute_local (Inr [[0xFF, 0x0A]]) (Some plain_sink) [] = (Inl UnicodeDecodeError, [])"
  by (simp add: execute_local_def)

section \<open>Reading the task id: properties\<close>

lemma py_in_sublist: "py_in sub s = sublist sub s"
  by (induction s) (simp_all add: sublist_Cons_right)

lemma digit_char_cases: "d < 10 \<Longrightarrow> d \<in> {0,1,2,3,4,5,6,7,8,9::nat}"
  by auto

lemma digit_val_digit_char: "d < 10 \<Longrightarrow> digit_val (digit_char d) = int d"
  by (drule digit_char_cases) (auto simp: digit_val_def digit_char_def string_digits_def)

lemma foldl_str_nat: "foldl (\<lambda>a c. 10 * a + digit_val c) 0 (str_nat n) = int n"
proof (induction n rule: str_nat.induct)
  case (1 n)
  show ?case
  proof (cases "n < 10")
    case True
    then show ?thesis by (subst str_nat.simps) (simp add: digit_val_digit_char)
  next
    case False
    then have "foldl (\<lambda>a c. 10 * a + digit_val c) 0 (str_nat (n div 10)) = int (n div 10)"
      using 1 by simp
    then show ?thesis using False
      by (subst str_nat.simps) (simp add: digit_val_digit_char zdiv_int zmod_int)
  qed
qed

lemma str_nat_ne: "str_nat n \<noteq> []"
  by (subst str_nat.simps) simp

text \<open>\<open>int(str(n))\<close> is \<open>n\<close>, as long as the digits of \<open>n\<close> are within the limit.\<close>

lemma py_int_str_nat:
  "\<not> exceeds_limit lim (length (str_nat n)) \<Longrightarrow> py_int lim (str_nat n) = Inr (int n)"
  by (simp add: py_int_def str_nat_ne foldl_str_nat)

lemma exceeds_limit_short: "n \<le> 640 \<Longrightarrow> \<not> exceeds_limit lim n"
  by (simp add: exceeds_limit_def)

lemma queue_run:
  assumes "task \<in> available_tasks" "resolve_cmd c = Inr s"
    "can_connect tr (py_or host (worker_host e)) (py_or user (worker_user e))"
    "exec_command tr (''./pueue add -g '' @ task @ '' -- '' @ s) = Inr ack"
  shows "queue lim tr e c task user host evs =
    (task_id_of lim ack,
     evs @ [Connect (py_or host (worker_host e)) (py_or user (worker_user e)),
            ExecCommand (''./pueue add -g '' @ task @ '' -- '' @ s), Close])"
  using assms by (simp add: queue_def execute_remote_def Let_def)

lemma task_id_of_42:
  assumes "\<forall>x\<in>set pre. x \<notin> set string_digits" "\<forall>x\<in>set post. x \<notin> set string_digits"
  shows "task_id_of lim (pre @ ''New task added 42.'' @ post) = Inr 42"
proof -
  have "''New task added 42.'' = ''New task added'' @ '' 42.''" by simp
  then have "sublist ''New task added'' (pre @ ''New task added 42.'' @ post)"
    using sublist_appendI[of "''New task added''" pre "'' 42.'' @ post"] by simp
  then have p: "py_in ''New task added'' (pre @ ''New task added 42.'' @ post)"
    by (simp only: py_in_sublist)
  have f: "filter (\<lambda>x. x \<in> set string_digits) (pre @ ''New task added 42.'' @ post) = ''42''"
    using assms by (simp add: string_digits_def)
  have "py_int lim ''42'' = Inr 42"
    by (simp add: py_int_def digit_val_def exceeds_limit_def)
  then show ?thesis unfolding task_id_of_def using p f by simp
qed

text \<open>
  Under the default limit, an acknowledgement with the phrase and 4301 digits makes
  \<open>int\<close>, and so \<open>queue\<close>, fail.
\<close>

lemma task_id_of_4301_digits:
  "task_id_of default_max_str_digits (''New task added '' @ replicate 4301 (CHR ''1'')) =
     Inl (ValueError ExceedsDigitLimit)"
proof -
  have p: "py_in ''New task added'' (''New task added '' @ replicate 4301 (CHR ''1''))"
    by simp
  have f: "filter (\<lambda>x. x \<in> set string_digits) (''New task added '' @ replicate 4301 (CHR ''1'')) =
      replicate 4301 (CHR ''1'')"
    by (simp add: string_digits_def)
  have "py_int default_max_str_digits (replicate 4301 (CHR ''1'')) = Inl (ValueError ExceedsDigitLimit)"
    by (simp add: py_int_def exceeds_limit_def default_max_str_digits_def)
  then show ?thesis unfolding task_id_of_def using p f by simp
qed

text \<open>
  C3, as the code has it. When the group is recognized, the command resolves, the
  connection is made and the queue-add invocation returns an acknowledgement text,
  \<open>queue\<close> returns an integer exactly when the text contains \<open>New task added\<close> and its
  digit characters are at least one and no more than \<open>int\<close> accepts; the integer is then
  the decimal reading of those digit characters, so that a text containing
  \<open>New task added 42.\<close> and no other digit gives 42. With the phrase and no digit, or
  more digits than the limit, \<open>int\<close> fails with \<open>ValueError\<close>; without the phrase
  \<open>queue\<close> fails with its \<open>RuntimeError\<close>.
\<close>

theorem queue_task_id_iff:
  "task \<in> available_tasks \<and> resolve_cmd c = Inr s \<and>
   can_connect tr (py_or host (worker_host e)) (py_or user (worker_user e)) \<and>
   exec_command tr (''./pueue add -g '' @ task @ '' -- '' @ s) = Inr ack \<and>
   digits = filter (\<lambda>x. x \<in> set string_digits) ack \<and>
   r = fst (queue lim tr e c task user host evs)
   \<longrightarrow>
   ((\<exists>n. r = Inr n) \<longleftrightarrow>
      (py_in ''New task added'' ack \<and> digits \<noteq> [] \<and> \<not> exceeds_limit lim (length digits))) \<and>
   (py_in ''New task added'' ack \<and> digits \<noteq> [] \<and> \<not> exceeds_limit lim (length digits) \<longrightarrow>
      r = Inr (foldl (\<lambda>a c. 10 * a + digit_val c) 0 digits)) \<and>
   (py_in ''New task added'' ack \<and> digits = [] \<longrightarrow> r = Inl (ValueError InvalidLiteralForInt)) \<and>
   (py_in ''New task added'' ack \<and> exceeds_limit lim (length digits) \<longrightarrow>
      r = Inl (ValueError ExceedsDigitLimit)) \<and>
   (\<not> py_in ''New task added'' ack \<longrightarrow> r = Inl RuntimeError) \<and>
   (\<forall>pre post. ack = pre @ ''New task added 42.'' @ post \<and>
      (\<forall>x\<in>set pre. x \<notin> set string_digits) \<and> (\<forall>x\<in>set post. x \<notin> set string_digits)
      \<longrightarrow> r = Inr 42)"
proof (intro impI, elim conjE)
  assume h: "task \<in> available_tasks" "resolve_cmd c = Inr s"
    "can_connect tr (py_or host (worker_host e)) (py_or user (worker_user e))"
    "exec_command tr (''./pueue add -g '' @ task @ '' -- '' @ s) = Inr ack"
  assume d: "digits = filter (\<lambda>x. x \<in> set string_digits) ack"
    and r: "r = fst (queue lim tr e c task user host evs)"
  have q: "r = task_id_of lim ack"
    using queue_run[OF h, where evs = evs and lim = lim] r by simp
  have e0: "\<not> exceeds_limit lim (length digits)" if "digits = []"
    using that by (simp add: exceeds_limit_def)
  have 1: "r = Inr (foldl (\<lambda>a c. 10 * a + digit_val c) 0 digits)"
    if "py_in ''New task added'' ack" "digits \<noteq> []" "\<not> exceeds_limit lim (length digits)"
    using that q d by (simp add: task_id_of_def py_int_def)
  have 2: "r = Inl (ValueError InvalidLiteralForInt)"
    if "py_in ''New task added'' ack" "digits = []"
    using that q d by (simp add: task_id_of_def py_int_def)
  have 3: "r = Inl RuntimeError" if "\<not> py_in ''New task added'' ack"
    using that q by (simp add: task_id_of_def)
  have 4: "r = Inr 42"
    if "ack = pre @ ''New task added 42.'' @ post"
      "\<forall>x\<in>set pre. x \<notin> set string_digits" "\<forall>x\<in>set post. x \<notin> set string_digits"
    for pre post
    using that q task_id_of_42[of pre post lim] by simp
  have 5: "r = Inl (ValueError ExceedsDigitLimit)"
    if "py_in ''New task added'' ack" "exceeds_limit lim (length digits)"
  proof -
    have "digits \<noteq> []" using that(2) e0 by blast
    then show ?thesis using that q d by (simp add: task_id_of_def py_int_def)
  qed
  have 6: "(\<exists>n. r = Inr n) \<longleftrightarrow>
      (py_in ''New task added'' ack \<and> digits \<noteq> [] \<and> \<not> exceeds_limit lim (length digits))"
  proof (cases "py_in ''New task added'' ack")
    case False
    then show ?thesis using 3 by auto
  next
    case p: True
    show ?thesis
    proof (cases "digits = []")
      case True
      then show ?thesis using 2 p by auto
    next
      case ne: False
      show ?thesis
      proof (cases "exceeds_limit lim (length digits)")
        case True
        then show ?thesis using 5 p by auto
      next
        case False
        then show ?thesis using 1 p ne by auto
      qed
    qed
  qed
  show "((\<exists>n. r = Inr n) \<longleftrightarrow>
      (py_in ''New task added'' ack \<and> digits \<noteq> [] \<and> \<not> exceeds_limit lim (length digits))) \<and>
   (py_in ''New task added'' ack \<and> digits \<noteq> [] \<and> \<not> exceeds_limit lim (length digits) \<longrightarrow>
      r = Inr (foldl (\<lambda>a c. 10 * a + digit_val c) 0 digits)) \<and>
   (py_in ''New task added'' ack \<and> digits = [] \<longrightarrow> r = Inl (ValueError InvalidLiteralForInt)) \<and>
   (py_in ''New task added'' ack \<and> exceeds_limit lim (length digits) \<longrightarrow>
      r = Inl (ValueError ExceedsDigitLimit)) \<and>
   (\<not> py_in ''New task added'' ack \<longrightarrow> r = Inl RuntimeError) \<and>
   (\<forall>pre post. ack = pre @ ''New task added 42.'' @ post \<and>
      (\<forall>x\<in>set pre. x \<notin> set string_digits) \<and> (\<forall>x\<in>set post. x \<notin> set string_digits)
      \<longrightarrow> r = Inr 42)"
    using 1 2 3 4 5 6 by blast
qed

text \<open>
  C3 as stated fails: the acknowledgement \<open>New task added\<close> contains the phrase, and
  \<open>queue\<close> returns no integer but fails in \<open>int\<close>.
\<close>

theorem queue_phrase_without_digit:
  "py_in ''New task added'' ''New task added'' \<and>
   queue default_max_str_digits (stub_transport ''New task added'') default_env
     (CStr ''ls'') ''train'' None None [] =
     (Inl (ValueError InvalidLiteralForInt),
      [Connect ''192.168.0.94'' ''task_runner'', ExecCommand ''./pueue add -g train -- ls'', Close])"
  by (simp add: queue_def execute_remote_def stub_transport_def default_env_def available_tasks_def
      task_id_of_def py_int_def string_digits_def)

theorem queue_task_id_iff_witness:
  "''train'' \<in> available_tasks \<and> resolve_cmd (CStr ''ls'') = Inr ''ls'' \<and>
   can_connect (stub_transport ''New task added (id 42).'')
     (py_or None (worker_host default_env)) (py_or None (worker_user default_env)) \<and>
   exec_command (stub_transport ''New task added (id 42).'') ''./pueue add -g train -- ls'' =
     Inr ''New task added (id 42).'' \<and>
   py_in ''New task added'' ''New task added (id 42).'' \<and>
   filter (\<lambda>x. x \<in> set string_digits) ''New task added (id 42).'' = ''42'' \<and>
   \<not> exceeds_limit default_max_str_digits (length ''42'') \<and>
   fst (queue default_max_str_digits (stub_transport ''New task added (id 42).'') default_env
          (CStr ''ls'') ''train'' None None []) = Inr 42"
  using queue_task_id_iff
    [where task = "''train''" and c = "CStr ''ls''" and s = "''ls''" and e = default_env
       and tr = "stub_transport ''New task added (id 42).''" and host = None and user = None
       and evs = "[]" and ack = "''New task added (id 42).''" and digits = "''42''"
       and lim = default_max_str_digits
       and r = "fst (queue default_max_str_digits (stub_transport ''New task added (id 42).'')
                  default_env (CStr ''ls'') ''train'' None None [])"]
  by (simp add: available_tasks_def stub_transport_def string_digits_def digit_val_def
      exceeds_limit_def)

text \<open>
  C9, as the code has it. When the acknowledgement contains the phrase and its digit
  characters are at least one and no more than \<open>int\<close> accepts, what \<open>queue\<close> returns is
  the decimal reading of all the digit characters of the whole acknowledgement in
  order: if they spell the number \<open>m\<close>, the result is \<open>m\<close>. So for the acknowledgement
  \<open>sleep 10: New task added (id 42).\<close> the result is 1042, not the task number 42.
\<close>

theorem queue_task_id_all_digits:
  "(task \<in> available_tasks \<and> resolve_cmd c = Inr s \<and>
    can_connect tr (py_or host (worker_host e)) (py_or user (worker_user e)) \<and>
    exec_command tr (''./pueue add -g '' @ task @ '' -- '' @ s) = Inr ack \<and>
    py_in ''New task added'' ack \<and>
    digits = filter (\<lambda>x. x \<in> set string_digits) ack \<and>
    digits \<noteq> [] \<and> \<not> exceeds_limit lim (length digits)
    \<longrightarrow>
    fst (queue lim tr e c task user host evs) =
      Inr (foldl (\<lambda>a c. 10 * a + digit_val c) 0 digits) \<and>
    (\<forall>m. digits = str_nat m \<longrightarrow> fst (queue lim tr e c task user host evs) = Inr (int m))) \<and>
   py_in ''New task added'' ''sleep 10: New task added (id 42).'' \<and>
   fst (queue default_max_str_digits (stub_transport ''sleep 10: New task added (id 42).'')
          default_env (CStr ''sleep 10'') ''train'' None None []) = Inr 1042"
proof -
  have x: "fst (queue default_max_str_digits (stub_transport ''sleep 10: New task added (id 42).'')
          default_env (CStr ''sleep 10'') ''train'' None None []) = Inr 1042"
    by (simp add: queue_def execute_remote_def stub_transport_def default_env_def available_tasks_def
      task_id_of_def py_int_def string_digits_def digit_val_def exceeds_limit_def)
  have y: "py_in ''New task added'' ''sleep 10: New task added (id 42).''"
    by simp
  have i: "task \<in> available_tasks \<and> resolve_cmd c = Inr s \<and>
    can_connect tr (py_or host (worker_host e)) (py_or user (worker_user e)) \<and>
    exec_command tr (''./pueue add -g '' @ task @ '' -- '' @ s) = Inr ack \<and>
    py_in ''New task added'' ack \<and>
    digits = filter (\<lambda>x. x \<in> set string_digits) ack \<and>
    digits \<noteq> [] \<and> \<not> exceeds_limit lim (length digits)
    \<longrightarrow>
    fst (queue lim tr e c task user host evs) =
      Inr (foldl (\<lambda>a c. 10 * a + digit_val c) 0 digits) \<and>
    (\<forall>m. digits = str_nat m \<longrightarrow> fst (queue lim tr e c task user host evs) = Inr (int m))"
  proof (intro impI, elim conjE)
    assume h: "task \<in> available_tasks" "resolve_cmd c = Inr s"
      "can_connect tr (py_or host (worker_host e)) (py_or user (worker_user e))"
      "exec_command tr (''./pueue add -g '' @ task @ '' -- '' @ s) = Inr ack"
    assume p: "py_in ''New task added'' ack"
      and d: "digits = filter (\<lambda>x. x \<in> set string_digits) ack"
      and ne: "digits \<noteq> []" and l: "\<not> exceeds_limit lim (length digits)"
    have r: "fst (queue lim tr e c task user host evs) =
        Inr (foldl (\<lambda>a c. 10 * a + digit_val c) 0 digits)"
      using queue_run[OF h, where evs = evs and lim = lim] p d ne l
      by (simp add: task_id_of_def py_int_def)
    have "fst (queue lim tr e c task user host evs) = Inr (int m)" if "digits = str_nat m" for m
      using r that by (simp only: foldl_str_nat)
    then show "fst (queue lim tr e c task user host evs) =
        Inr (foldl (\<lambda>a c. 10 * a + digit_val c) 0 digits) \<and>
      (\<forall>m. digits = str_nat m \<longrightarrow> fst (queue lim tr e c task user host evs) = Inr (int m))"
      using r by blast
  qed
  show ?thesis using i x y by blast
qed

theorem queue_task_id_all_digits_witness:
  "''train'' \<in> available_tasks \<and> resolve_cmd (CStr ''sleep 10'') = Inr ''sleep 10'' \<and>
   can_connect (stub_transport ''sleep 10: New task added (id 7).'')
     (py_or None (worker_host default_env)) (py_or None (worker_user default_env)) \<and>
   exec_command (stub_transport ''sleep 10: New task added (id 7).'')
     ''./pueue add -g train -- sleep 10'' = Inr ''sleep 10: New task added (id 7).'' \<and>
   py_in ''New task added'' ''sleep 10: New task added (id 7).'' \<and>
   filter (\<lambda>x. x \<in> set string_digits) ''sleep 10: New task added (id 7).'' = ''107'' \<and>
   ''107'' \<noteq> [] \<and> \<not> exceeds_limit default_max_str_digits (length ''107'') \<and>
   fst (queue default_max_str_digits (stub_transport ''sleep 10: New task added (id 7).'')
          default_env (CStr ''sleep 10'') ''train'' None None []) = Inr 107"
  using queue_task_id_all_digits
    [where task = "''train''" and c = "CStr ''sleep 10''" and s = "''sleep 10''" and e = default_env
       and tr = "stub_transport ''sleep 10: New task added (id 7).''" and host = None and user = None
       and evs = "[]" and ack = "''sleep 10: New task added (id 7).''" and digits = "''107''"
       and lim = default_max_str_digits]
  by (simp add: available_tasks_def stub_transport_def string_digits_def digit_val_def
      exceeds_limit_def)

text \<open>
  C9 as stated fails: the acknowledgements \<open>New task added.\<close> and, under the default
  limit of 4300 digits, \<open>New task added\<close> followed by 4301 digits contain the phrase,
  and for neither does \<open>queue\<close> return an id: \<open>int\<close> fails on the digits.
\<close>

theorem queue_phrase_no_id_returned:
  "py_in ''New task added'' ''New task added.'' \<and>
   fst (queue default_max_str_digits (stub_transport ''New task added.'') default_env
          (CStr ''ls'') ''train'' None None []) = Inl (ValueError InvalidLiteralForInt) \<and>
   py_in ''New task added'' (''New task added '' @ replicate 4301 (CHR ''1'')) \<and>
   fst (queue default_max_str_digits
          (stub_transport (''New task added '' @ replicate 4301 (CHR ''1''))) default_env
          (CStr ''ls'') ''train'' None None []) = Inl (ValueError ExceedsDigitLimit)"
proof -
  have a: "fst (queue default_max_str_digits (stub_transport ''New task added.'') default_env
          (CStr ''ls'') ''train'' None None []) = Inl (ValueError InvalidLiteralForInt)"
    by (simp add: queue_def execute_remote_def stub_transport_def default_env_def available_tasks_def
      task_id_of_def py_int_def string_digits_def)
  have h: "''train'' \<in> available_tasks" "resolve_cmd (CStr ''ls'') = Inr ''ls''"
    "can_connect (stub_transport (''New task added '' @ replicate 4301 (CHR ''1'')))
       (py_or None (worker_host default_env)) (py_or None (worker_user default_env))"
    "exec_command (stub_transport (''New task added '' @ replicate 4301 (CHR ''1'')))
       (''./pueue add -g '' @ ''train'' @ '' -- '' @ ''ls'') =
     Inr (''New task added '' @ replicate 4301 (CHR ''1''))"
    by (simp_all add: available_tasks_def stub_transport_def)
  have b: "fst (queue default_max_str_digits
          (stub_transport (''New task added '' @ replicate 4301 (CHR ''1''))) default_env
          (CStr ''ls'') ''train'' None None []) = Inl (ValueError ExceedsDigitLimit)"
    using queue_run[OF h, where evs = "[]" and lim = default_max_str_digits]
    by (simp only: fst_conv task_id_of_4301_digits)
  have c: "py_in ''New task added'' (''New task added '' @ replicate 4301 (CHR ''1''))"
    by simp
  show ?thesis using a b c by simp
qed

section \<open>The live status callback: properties\<close>

lemma live_loop_terminal:
  assumes "src f (queries w) = Inr st" "status st \<in> terminal"
  shows "live_loop src t f w = Some (Inr (st, render_ui t st), w\<lparr>queries := Suc (queries w)\<rparr>)"
  using assms by (subst live_loop.simps) (simp add: pueue_status_def)

lemma live_loop_step:
  assumes "src f (queries w) = Inr st" "status st \<notin> terminal"
  shows "live_loop src t f w =
     live_loop src t f
       (w\<lparr>queries := Suc (queries w),
          progress_calls := progress_calls w @ [(progress_title st, render_ui t st)],
          sleeps := sleeps w @ [5]\<rparr>)"
  using assms
  by (subst live_loop.simps) (simp add: pueue_status_def set_progress_def sleep_def)

text \<open>
  The loop returns as soon as an answer carries a terminal label: after \<open>n\<close> answers
  that do not, it has made \<open>n + 1\<close> queries, called the sink \<open>n\<close> times with those
  \<open>n\<close> payloads, and slept \<open>n\<close> times.
\<close>

lemma live_loop_returns:
  assumes "\<forall>i<n. src f (queries w + i) = Inr (pay i) \<and> status (pay i) \<notin> terminal"
    and "src f (queries w + n) = Inr st" "status st \<in> terminal"
  shows "live_loop src t f w =
     Some (Inr (st, render_ui t st),
           w\<lparr>queries := queries w + Suc n,
             progress_calls := progress_calls w @ map (\<lambda>i. (progress_title (pay i), render_ui t (pay i))) [0..<n],
             sleeps := sleeps w @ replicate n 5\<rparr>)"
  using assms
proof (induction n arbitrary: w pay)
  case 0
  then show ?case using live_loop_terminal[of src f w st t] by simp
next
  case (Suc n)
  let ?w = "w\<lparr>queries := Suc (queries w),
          progress_calls := progress_calls w @ [(progress_title (pay 0), render_ui t (pay 0))],
          sleeps := sleeps w @ [5]\<rparr>"
  from Suc.prems(1) have h0: "src f (queries w) = Inr (pay 0)" "status (pay 0) \<notin> terminal"
    by force+
  have a: "\<forall>i<n. src f (queries ?w + i) = Inr ((pay \<circ> Suc) i) \<and> status ((pay \<circ> Suc) i) \<notin> terminal"
    using Suc.prems(1) by auto
  have b: "src f (queries ?w + n) = Inr st"
    using Suc.prems(2) by simp
  have m: "map (\<lambda>i. (progress_title (pay i), render_ui t (pay i))) [0..<Suc n] =
      (progress_title (pay 0), render_ui t (pay 0)) #
      map (\<lambda>i. (progress_title ((pay \<circ> Suc) i), render_ui t ((pay \<circ> Suc) i))) [0..<n]"
    by (simp add: upt_conv_Cons map_Suc_upt[symmetric] del: upt_Suc)
  have "live_loop src t f w = live_loop src t f ?w"
    using h0 by (rule live_loop_step)
  also have "\<dots> = Some (Inr (st, render_ui t st),
           ?w\<lparr>queries := queries ?w + Suc n,
             progress_calls := progress_calls ?w @ map (\<lambda>i. (progress_title ((pay \<circ> Suc) i), render_ui t ((pay \<circ> Suc) i))) [0..<n],
             sleeps := sleeps ?w @ replicate n 5\<rparr>)"
    using a b Suc.prems(3) by (rule Suc.IH)
  finally show ?case
    by (simp only: m) (simp add: replicate_append_same)
qed

text \<open>
  C2. In live mode, against a status source whose first three answers carry the labels
  \<open>Running\<close>, \<open>Running\<close>, \<open>Success\<close>, the callback returns, with the payload of the
  third answer; three queries were made, the progress sink was called exactly twice,
  with the two \<open>Running\<close> payloads, and never with the \<open>Success\<close> one; the loop slept
  twice, five seconds each.
\<close>

theorem live_callback_running_running_success:
  assumes "t \<noteq> []"
    and "src f 0 = Inr s0" "src f (Suc 0) = Inr s1" "src f (Suc (Suc 0)) = Inr s2"
    and "status s0 = ''Running''" "status s1 = ''Running''" "status s2 = ''Success''"
  shows "pueue_status_callback src (Some t) (Some True) (Some f) fresh_world =
     Some (Inr (Update (final_title s2) (render_ui t s2) []),
           \<lparr> queries = 3,
             progress_calls = [(progress_title s0, render_ui t s0), (progress_title s1, render_ui t s1)],
             sleeps = [5, 5] \<rparr>)"
proof -
  let ?w1 = "\<lparr> queries = Suc 0, progress_calls = [(progress_title s0, render_ui t s0)], sleeps = [5] \<rparr>"
  let ?w2 = "\<lparr> queries = Suc (Suc 0),
    progress_calls = [(progress_title s0, render_ui t s0), (progress_title s1, render_ui t s1)],
    sleeps = [5, 5] \<rparr>"
  have 3: "live_loop src t f ?w2 = Some (Inr (s2, render_ui t s2), ?w2\<lparr>queries := 3\<rparr>)"
    using assms by (subst live_loop.simps) (simp add: pueue_status_def terminal_def)
  have 2: "live_loop src t f ?w1 = live_loop src t f ?w2"
    using assms
    by (subst live_loop.simps) (simp add: pueue_status_def terminal_def set_progress_def sleep_def)
  have 1: "live_loop src t f fresh_world = live_loop src t f ?w1"
    using assms
    by (subst live_loop.simps)
      (simp add: pueue_status_def terminal_def set_progress_def sleep_def fresh_world_def)
  show ?thesis using assms(1) by (simp add: pueue_status_callback_def 1 2 3)
qed

theorem live_callback_running_running_success_witness:
  "''7'' \<noteq> [] \<and>
   stub_source [task_with_status ''Running'', task_with_status ''Running'', task_with_status ''Success''] False 0 = Inr (task_with_status ''Running'') \<and>
   status (task_with_status ''Running'') = ''Running'' \<and>
   status (task_with_status ''Success'') = ''Success'' \<and>
   pueue_status_callback
     (stub_source [task_with_status ''Running'', task_with_status ''Running'', task_with_status ''Success''])
     (Some ''7'') (Some True) (Some False) fresh_world =
   Some (Inr (Update (final_title (task_with_status ''Success'')) (render_ui ''7'' (task_with_status ''Success'')) []),
         \<lparr> queries = 3,
           progress_calls = [(progress_title (task_with_status ''Running''), render_ui ''7'' (task_with_status ''Running'')),
                             (progress_title (task_with_status ''Running''), render_ui ''7'' (task_with_status ''Running''))],
           sleeps = [5, 5] \<rparr>)"
  using live_callback_running_running_success
    [of "''7''" "stub_source [task_with_status ''Running'', task_with_status ''Running'', task_with_status ''Success'']"
        False "task_with_status ''Running''" "task_with_status ''Running''" "task_with_status ''Success''"]
  by (simp add: stub_source_def task_with_status_def)

end
